theory Spec2Isabelle
  imports Main "HOL-Library.Word"
begin

unbundle bit_operations_syntax

section \<open>Machine types\<close>

type_synonym u8 = "8 word"
type_synonym u16 = "16 word"
type_synonym u32 = "32 word"
type_synonym u64 = "64 word"

section \<open>SequenceSpace: wrapping\_integers.cc\<close>

text \<open>
  \<^verbatim>\<open>Wrap32\<close> is a class around one \<^verbatim>\<open>uint32_t raw_value_\<close>. Its \<^verbatim>\<open>operator+\<close> lives in
  the header, which is not part of the sources at hand.
\<close>

datatype Wrap32 = Wrap32 (raw_value: u32)

text \<open>
  Modelled from the spec: \<^verbatim>\<open>Wrap32::operator+( uint32_t )\<close> of the missing header
  \<^verbatim>\<open>wrapping_integers.hh\<close>; the spec describes \<^verbatim>\<open>wrap\<close> as
  "zero\_point + (absolute\_index mod \<^verbatim>\<open>2^32\<close>) using 32-bit wraparound addition".
\<close>

definition Wrap32_plus :: "Wrap32 \<Rightarrow> u32 \<Rightarrow> Wrap32" where
  "Wrap32_plus w n = Wrap32 (raw_value w + n)"

text \<open>
  \<^verbatim>\<open>return zero_point + static_cast<uint32_t>( n % static_cast<uint64_t>( 1UL << 32 ) );\<close>
\<close>

definition wrap :: "u64 \<Rightarrow> Wrap32 \<Rightarrow> Wrap32" where
  "wrap n zero_point = Wrap32_plus zero_point (ucast (n mod push_bit 32 1))"

text \<open>
  The three locals of \<^verbatim>\<open>Wrap32::unwrap\<close>. All of \<^verbatim>\<open>check\<close>, \<^verbatim>\<open>raw_value_\<close> and
  \<^verbatim>\<open>(uint32_t)( 1UL<<32 )\<close> are \<^verbatim>\<open>uint32_t\<close>, so the sums and differences are taken
  in 32 bits and only then widened to 64 bits.
\<close>

definition unwrap_check :: "Wrap32 \<Rightarrow> u64 \<Rightarrow> u32" where
  "unwrap_check zero_point checkpoint =
     raw_value zero_point + ucast (checkpoint mod push_bit 32 1)"

definition unwrap_left :: "Wrap32 \<Rightarrow> Wrap32 \<Rightarrow> u64 \<Rightarrow> u64" where
  "unwrap_left w zero_point checkpoint =
     (ucast (unwrap_check zero_point checkpoint + ucast (push_bit 32 (1 :: u64)) - raw_value w) :: u64)
       mod push_bit 32 1"

definition unwrap_right :: "Wrap32 \<Rightarrow> Wrap32 \<Rightarrow> u64 \<Rightarrow> u64" where
  "unwrap_right w zero_point checkpoint =
     (ucast (raw_value w + ucast (push_bit 32 (1 :: u64)) - unwrap_check zero_point checkpoint) :: u64)
       mod push_bit 32 1"

text \<open>
  \<^verbatim>\<open>return (left < right && checkpoint >= left) ? checkpoint - left : checkpoint + right;\<close>
  on \<^verbatim>\<open>uint64_t\<close>: both the difference and the sum wrap modulo \<^verbatim>\<open>2^64\<close>.
\<close>

definition unwrap :: "Wrap32 \<Rightarrow> Wrap32 \<Rightarrow> u64 \<Rightarrow> u64" where
  "unwrap w zero_point checkpoint =
     (let left = unwrap_left w zero_point checkpoint;
          right = unwrap_right w zero_point checkpoint
      in if left < right \<and> checkpoint \<ge> left then checkpoint - left else checkpoint + right)"

text \<open>How far apart two absolute indices are.\<close>

definition distance :: "nat \<Rightarrow> nat \<Rightarrow> nat" where
  "distance a b = (if a \<le> b then b - a else a - b)"

section \<open>NetworkInterface: network\_interface.cc\<close>

subsection \<open>Collaborator types\<close>

text \<open>
  An Ethernet address is an array of six bytes. The frame, header and ARP message types,
  their constants and the parse and serialize functions are declared in headers that are
  not part of the sources at hand.
\<close>

type_synonym EthernetAddress = "u8 list"

text \<open>
  Modelled from the spec: the "well-known broadcast destination address constant"
  \<^verbatim>\<open>ETHERNET_BROADCAST\<close> (all six bytes \<^verbatim>\<open>0xff\<close>), the protocol type tags of a frame
  header and the two ARP opcodes; the code only compares them for equality.
\<close>

definition ETHERNET_BROADCAST :: EthernetAddress where
  "ETHERNET_BROADCAST = [0xff, 0xff, 0xff, 0xff, 0xff, 0xff]"

definition TYPE_IPv4 :: u16 where
  "TYPE_IPv4 = 0x800"

definition TYPE_ARP :: u16 where
  "TYPE_ARP = 0x806"

definition OPCODE_REQUEST :: u16 where
  "OPCODE_REQUEST = 1"

definition OPCODE_REPLY :: u16 where
  "OPCODE_REPLY = 2"

record EthernetHeader =
  dst :: EthernetAddress
  src :: EthernetAddress
  ether_type :: u16

record 'p EthernetFrame =
  header :: EthernetHeader
  payload :: 'p

record ARPMessage =
  opcode :: u16
  sender_ethernet_address :: EthernetAddress
  sender_ip_address :: u32
  target_ethernet_address :: EthernetAddress
  target_ip_address :: u32

text \<open>
  Modelled from the spec: a default-constructed \<^verbatim>\<open>ARPMessage\<close> (\<^verbatim>\<open>ARPMessage request_msg;\<close>),
  whose fields the code then assigns one by one; the fields it does not assign stay
  zero.
\<close>

definition ARPMessage_default :: ARPMessage where
  "ARPMessage_default =
     \<lparr> opcode = 0, sender_ethernet_address = [0, 0, 0, 0, 0, 0], sender_ip_address = 0,
       target_ethernet_address = [0, 0, 0, 0, 0, 0], target_ip_address = 0 \<rparr>"

text \<open>
  The parsers and serializers are taken as parameters: \<^verbatim>\<open>serialize( dgram )\<close>,
  \<^verbatim>\<open>parse( dgram, payload )\<close> (a \<^verbatim>\<open>bool\<close> and the parsed object, here an option) and
  the same pair for ARP messages. \<open>'d\<close> is the datagram type, \<open>'p\<close> the payload type.
\<close>

record ('d, 'p) codec =
  serialize_dgram :: "'d \<Rightarrow> 'p"
  parse_dgram :: "'p \<Rightarrow> 'd option"
  serialize_arp :: "ARPMessage \<Rightarrow> 'p"
  parse_arp :: "'p \<Rightarrow> ARPMessage option"

text \<open>
  A concrete pair of parsers and serializers for running the operations on examples: a
  payload is either a datagram (here a string of bytes) or an ARP message, and each
  parser accepts its own kind only.
\<close>

definition tagged_codec :: "(string, string + ARPMessage) codec" where
  "tagged_codec =
     \<lparr> serialize_dgram = Inl,
       parse_dgram = (\<lambda>p. case p of Inl d \<Rightarrow> Some d | Inr m \<Rightarrow> None),
       serialize_arp = Inr,
       parse_arp = (\<lambda>p. case p of Inl d \<Rightarrow> None | Inr m \<Rightarrow> Some m) \<rparr>"

subsection \<open>State\<close>

text \<open>
  The members of \<^verbatim>\<open>NetworkInterface\<close> (the trailing underscore of the C++ names is
  dropped). \<^verbatim>\<open>ip2ether_\<close>, \<^verbatim>\<open>arp_timer_\<close> and \<^verbatim>\<open>waited_dgrams_\<close> are keyed containers
  used through \<^verbatim>\<open>contains\<close>, \<^verbatim>\<open>operator[]\<close>, \<^verbatim>\<open>insert\<close>, \<^verbatim>\<open>emplace\<close> and \<^verbatim>\<open>erase\<close>;
  \<^verbatim>\<open>out_frames_\<close> is a FIFO queue, oldest frame first. Ages are \<^verbatim>\<open>size_t\<close>.
\<close>

record ('d, 'p) NetworkInterface =
  ethernet_address :: EthernetAddress
  ip_address :: u32
  ip2ether :: "u32 \<rightharpoonup> (EthernetAddress \<times> u64)"
  arp_timer :: "u32 \<rightharpoonup> u64"
  waited_dgrams :: "u32 \<rightharpoonup> 'd list"
  out_frames :: "'p EthernetFrame list"

text \<open>
  The constructor: the two addresses are stored, every container starts empty.
\<close>

definition NetworkInterface_init :: "EthernetAddress \<Rightarrow> u32 \<Rightarrow> ('d, 'p) NetworkInterface" where
  "NetworkInterface_init eth ip =
     \<lparr> ethernet_address = eth, ip_address = ip, ip2ether = Map.empty, arp_timer = Map.empty,
       waited_dgrams = Map.empty, out_frames = [] \<rparr>"

text \<open>
  \<^verbatim>\<open>insert\<close> and \<^verbatim>\<open>emplace\<close> of a map with unique keys: the pair is added only when the
  key is absent, an existing element is left as it is.
\<close>

definition map_insert :: "('k \<rightharpoonup> 'v) \<Rightarrow> 'k \<Rightarrow> 'v \<Rightarrow> ('k \<rightharpoonup> 'v)" where
  "map_insert m k v = (case m k of None \<Rightarrow> m(k \<mapsto> v) | Some old \<Rightarrow> m)"

text \<open>\<^verbatim>\<open>m[k]\<close> on a map of vectors: a missing key reads as a new empty vector.\<close>

definition map_index :: "('k \<rightharpoonup> 'v list) \<Rightarrow> 'k \<Rightarrow> 'v list" where
  "map_index m k = (case m k of None \<Rightarrow> [] | Some v \<Rightarrow> v)"

subsection \<open>Operations\<close>

definition send_datagram ::
  "('d, 'p) codec \<Rightarrow> 'd \<Rightarrow> u32 \<Rightarrow> ('d, 'p) NetworkInterface \<Rightarrow> ('d, 'p) NetworkInterface" where
  "send_datagram cd dgram next_hop s =
     (let target_ip = next_hop in
      case ip2ether s target_ip of
        Some entry \<Rightarrow>
          (let frame = \<lparr> header = \<lparr> dst = fst entry, src = ethernet_address s, ether_type = TYPE_IPv4 \<rparr>,
                         payload = serialize_dgram cd dgram \<rparr>
           in s\<lparr> out_frames := out_frames s @ [frame] \<rparr>)
      | None \<Rightarrow>
          (if arp_timer s target_ip = None then
             (let request_msg = ARPMessage_default
                    \<lparr> opcode := OPCODE_REQUEST,
                      sender_ethernet_address := ethernet_address s,
                      sender_ip_address := ip_address s,
                      target_ip_address := target_ip \<rparr>;
                  frame = \<lparr> header = \<lparr> dst = ETHERNET_BROADCAST, src = ethernet_address s,
                                        ether_type = TYPE_ARP \<rparr>,
                            payload = serialize_arp cd request_msg \<rparr>
              in s\<lparr> out_frames := out_frames s @ [frame],
                    arp_timer := map_insert (arp_timer s) next_hop 0,
                    waited_dgrams := map_insert (waited_dgrams s) target_ip [dgram] \<rparr>)
           else
             s\<lparr> waited_dgrams :=
                  (waited_dgrams s)(target_ip \<mapsto> map_index (waited_dgrams s) target_ip @ [dgram]) \<rparr>))"

text \<open>
  The loop \<^verbatim>\<open>for ( auto const& dgram : dgrams ) send_datagram( dgram, ... )\<close> of the reply
  branch. It runs over the vector \<^verbatim>\<open>waited_dgrams_[msg.sender_ip_address]\<close> and is entered
  right after the sender was inserted into \<^verbatim>\<open>ip2ether_\<close>, so every call takes the first
  branch of \<^verbatim>\<open>send_datagram\<close> and the vector is not touched while it is traversed.
\<close>

fun resend_all ::
  "('d, 'p) codec \<Rightarrow> 'd list \<Rightarrow> u32 \<Rightarrow> ('d, 'p) NetworkInterface \<Rightarrow> ('d, 'p) NetworkInterface" where
  "resend_all cd [] ip s = s"
| "resend_all cd (dgram # dgrams) ip s = resend_all cd dgrams ip (send_datagram cd dgram ip s)"

definition recv_arp ::
  "('d, 'p) codec \<Rightarrow> ARPMessage \<Rightarrow> ('d, 'p) NetworkInterface \<Rightarrow> ('d, 'p) NetworkInterface" where
  "recv_arp cd msg s =
     (let s1 = s\<lparr> ip2ether := map_insert (ip2ether s) (sender_ip_address msg)
                                 (sender_ethernet_address msg, 0) \<rparr>
      in if opcode msg = OPCODE_REQUEST then
           (if target_ip_address msg = ip_address s1 then
              (let reply_msg = ARPMessage_default
                     \<lparr> opcode := OPCODE_REPLY,
                       sender_ethernet_address := ethernet_address s1,
                       sender_ip_address := ip_address s1,
                       target_ethernet_address := sender_ethernet_address msg,
                       target_ip_address := sender_ip_address msg \<rparr>;
                   reply_frame = \<lparr> header = \<lparr> dst = sender_ethernet_address msg,
                                               src = ethernet_address s1, ether_type = TYPE_ARP \<rparr>,
                                   payload = serialize_arp cd reply_msg \<rparr>
               in s1\<lparr> out_frames := out_frames s1 @ [reply_frame] \<rparr>)
            else s1)
         else if opcode msg = OPCODE_REPLY then
           (let s2 = s1\<lparr> ip2ether := map_insert (ip2ether s1) (sender_ip_address msg)
                                         (sender_ethernet_address msg, 0) \<rparr>;
                dgrams = map_index (waited_dgrams s2) (sender_ip_address msg);
                s3 = resend_all cd dgrams (sender_ip_address msg) s2
            in s3\<lparr> waited_dgrams := (waited_dgrams s3)(sender_ip_address msg := None) \<rparr>)
         else s1)"

definition recv_frame ::
  "('d, 'p) codec \<Rightarrow> 'p EthernetFrame \<Rightarrow> ('d, 'p) NetworkInterface
     \<Rightarrow> 'd option \<times> ('d, 'p) NetworkInterface" where
  "recv_frame cd frame s =
     (if dst (header frame) \<noteq> ethernet_address s \<and> dst (header frame) \<noteq> ETHERNET_BROADCAST then
        (None, s)
      else if ether_type (header frame) = TYPE_IPv4 then
        (case parse_dgram cd (payload frame) of
           Some dgram \<Rightarrow> (Some dgram, s)
         | None \<Rightarrow> (None, s))
      else if ether_type (header frame) = TYPE_ARP then
        (case parse_arp cd (payload frame) of
           Some msg \<Rightarrow> (None, recv_arp cd msg s)
         | None \<Rightarrow> (None, s))
      else (None, s))"

definition IP_MAP_TTL :: u64 where
  "IP_MAP_TTL = 30000"

definition ARP_REQUEST_TTL :: u64 where
  "ARP_REQUEST_TTL = 5000"

text \<open>
  The two loops of \<^verbatim>\<open>tick\<close> visit every element once: the age grows by
  \<^verbatim>\<open>ms_since_last_tick\<close> (a \<^verbatim>\<open>size_t\<close> sum) and the element is erased when the new age
  has reached the time to live.
\<close>

definition tick :: "u64 \<Rightarrow> ('d, 'p) NetworkInterface \<Rightarrow> ('d, 'p) NetworkInterface" where
  "tick ms_since_last_tick s =
     s\<lparr> ip2ether := (\<lambda>ip. case ip2ether s ip of
                            None \<Rightarrow> None
                          | Some (eth, age) \<Rightarrow>
                              if age + ms_since_last_tick \<ge> IP_MAP_TTL then None
                              else Some (eth, age + ms_since_last_tick)),
        arp_timer := (\<lambda>ip. case arp_timer s ip of
                             None \<Rightarrow> None
                           | Some age \<Rightarrow>
                               if age + ms_since_last_tick \<ge> ARP_REQUEST_TTL then None
                               else Some (age + ms_since_last_tick)) \<rparr>"

definition maybe_send ::
  "('d, 'p) NetworkInterface \<Rightarrow> 'p EthernetFrame option \<times> ('d, 'p) NetworkInterface" where
  "maybe_send s =
     (case out_frames s of
        [] \<Rightarrow> (None, s)
      | frame # rest \<Rightarrow> (Some frame, s\<lparr> out_frames := rest \<rparr>))"

text \<open>A caller's sequence of \<^verbatim>\<open>tick\<close> calls, first interval first.\<close>

fun ticks :: "u64 list \<Rightarrow> ('d, 'p) NetworkInterface \<Rightarrow> ('d, 'p) NetworkInterface" where
  "ticks [] s = s"
| "ticks (ms # rest) s = ticks rest (tick ms s)"

subsection \<open>Example inputs\<close>

text \<open>
  A host, a peer on its link and a third Ethernet address, and ARP frames sent in the
  peer's name: the inputs of the worked examples.
\<close>

definition host_eth :: EthernetAddress where
  "host_eth = [0x02, 0, 0, 0, 0, 0x01]"

definition peer_eth :: EthernetAddress where
  "peer_eth = [0x02, 0, 0, 0, 0, 0x02]"

definition other_eth :: EthernetAddress where
  "other_eth = [0x02, 0, 0, 0, 0, 0x03]"

definition host_ip :: u32 where
  "host_ip = 0x0A000001"

definition peer_ip :: u32 where
  "peer_ip = 0x0A000002"

definition host :: "(string, string + ARPMessage) NetworkInterface" where
  "host = NetworkInterface_init host_eth host_ip"

definition arp_frame :: "EthernetAddress \<Rightarrow> u16 \<Rightarrow> EthernetAddress \<Rightarrow> (string + ARPMessage) EthernetFrame" where
  "arp_frame to op sender_eth =
     \<lparr> header = \<lparr> dst = to, src = sender_eth, ether_type = TYPE_ARP \<rparr>,
       payload = Inr \<lparr> opcode = op, sender_ethernet_address = sender_eth, sender_ip_address = peer_ip,
                       target_ethernet_address = host_eth, target_ip_address = host_ip \<rparr> \<rparr>"

section \<open>Reassembler: reassembler.cc\<close>

subsection \<open>The output stream\<close>

text \<open>
  Modelled from the spec: the \<^verbatim>\<open>Writer\<close> of the missing byte stream, "an output byte
  stream exposing push(bytes) (appends, must not exceed remaining capacity),
  available\_capacity() (remaining bytes before blocking the producer), close()
  (idempotent, marks no more bytes will be written)". \<open>pushed\<close> holds every byte
  written so far, oldest first. A push of more bytes than the stream can take appends
  the bytes that fit.
\<close>

record Writer =
  pushed :: string
  capacity_left :: u64
  closed :: bool

definition available_capacity :: "Writer \<Rightarrow> u64" where
  "available_capacity output = capacity_left output"

definition push :: "string \<Rightarrow> Writer \<Rightarrow> Writer" where
  "push data output =
     (let accepted = take (unat (capacity_left output)) data
      in output\<lparr> pushed := pushed output @ accepted,
                  capacity_left := capacity_left output - of_nat (length accepted) \<rparr>)"

definition close :: "Writer \<Rightarrow> Writer" where
  "close output = output\<lparr> closed := True \<rparr>"

subsection \<open>Failures\<close>

text \<open>
  What the C++ can do instead of returning: \<^verbatim>\<open>std::string::resize\<close> throws
  \<^verbatim>\<open>std::length_error\<close> for a size beyond \<^verbatim>\<open>max_size()\<close>, an exception inside a
  \<^verbatim>\<open>noexcept\<close> function ends the program, and reading the past-the-end element or
  writing past the end of a string is undefined behaviour.
\<close>

datatype error = length_error | terminated | undefined_behaviour

text \<open>
  The largest size of a \<^verbatim>\<open>std::string\<close>, \<^verbatim>\<open>max_size()\<close>, belongs to the standard library
  and not to this repository; the value is that of a 64-bit libstdc++ (g++ 12). Running out of
  memory below that size is not modelled.
\<close>

definition string_max_size :: nat where
  "string_max_size = 2 ^ 63 - 1"

text \<open>\<^verbatim>\<open>s.resize( n )\<close>: cut to \<open>n\<close> bytes, or padded with zero bytes up to \<open>n\<close>.\<close>

definition resize :: "nat \<Rightarrow> string \<Rightarrow> error + string" where
  "resize n s =
     (if n > string_max_size then Inl length_error
      else Inr (take n s @ replicate (n - length s) (CHR 0x00)))"

subsection \<open>State\<close>

text \<open>
  An element of \<^verbatim>\<open>store_buffer_\<close> is a tuple: \<^verbatim>\<open>get<0>\<close> the first index, \<^verbatim>\<open>get<1>\<close> the
  last index (\<^verbatim>\<open>insert\<close> passes \<^verbatim>\<open>data_right - 1\<close>), \<^verbatim>\<open>get<2>\<close> the bytes.
\<close>

type_synonym node = "u64 \<times> u64 \<times> string"

definition get0 :: "node \<Rightarrow> u64" where
  "get0 node = fst node"

definition get1 :: "node \<Rightarrow> u64" where
  "get1 node = fst (snd node)"

definition get2 :: "node \<Rightarrow> string" where
  "get2 node = snd (snd node)"

record Reassembler =
  store_buffer :: "node list"
  next_stream_index :: u64
  store_data_size :: u64
  had_last :: bool

text \<open>
  Modelled from the spec: the member initialisers of the missing header
  \<^verbatim>\<open>reassembler.hh\<close>: an empty pending buffer, cursor 0, counter 0, flag unset.
\<close>

definition Reassembler_init :: Reassembler where
  "Reassembler_init =
     \<lparr> store_buffer = [], next_stream_index = 0, store_data_size = 0, had_last = False \<rparr>"

definition bytes_pending :: "Reassembler \<Rightarrow> u64" where
  "bytes_pending r = store_data_size r"

subsection \<open>Binary searches of the standard library\<close>

text \<open>
  \<^verbatim>\<open>std::lower_bound\<close> with the comparison \<^verbatim>\<open>get<1>( node ) < left_index\<close>, as the
  standard library runs it: a halving search over the \<open>len\<close> elements from position
  \<open>first\<close>. On a buffer that the comparison does not partition the search still runs
  and returns the position computed here.
\<close>

fun lower_bound :: "node list \<Rightarrow> nat \<Rightarrow> nat \<Rightarrow> u64 \<Rightarrow> nat" where
  "lower_bound buf first len left_index =
     (if 0 < len then
        (let half = len div 2; middle = first + half
         in if get1 (buf ! middle) < left_index
            then lower_bound buf (middle + 1) (len - half - 1) left_index
            else lower_bound buf first half left_index)
      else first)"

text \<open>
  \<^verbatim>\<open>std::upper_bound\<close> with the comparison \<^verbatim>\<open>get<0>( node ) < right_index\<close> (called with
  the value first): the search goes left where the comparison holds.
\<close>

fun upper_bound :: "node list \<Rightarrow> nat \<Rightarrow> nat \<Rightarrow> u64 \<Rightarrow> nat" where
  "upper_bound buf first len right_index =
     (if 0 < len then
        (let half = len div 2; middle = first + half
         in if get0 (buf ! middle) < right_index
            then upper_bound buf first half right_index
            else upper_bound buf (middle + 1) (len - half - 1) right_index)
      else first)"

subsection \<open>Operations\<close>

text \<open>
  \<^verbatim>\<open>push_data_to_stream\<close>: the cursor advances by the size of the data, which is then
  pushed.
\<close>

definition push_data_to_stream :: "string \<Rightarrow> Reassembler \<times> Writer \<Rightarrow> Reassembler \<times> Writer" where
  "push_data_to_stream data st =
     (case st of (r, output) \<Rightarrow>
        (r\<lparr> next_stream_index := next_stream_index r + of_nat (length data) \<rparr>, push data output))"

text \<open>
  \<^verbatim>\<open>std::ranges::copy( s, temp_s.begin() + l - data_left )\<close>: the bytes of \<open>s\<close> are
  written into the scratch string of \<open>n\<close> bytes from offset \<open>l - data_left\<close> (a 64-bit
  difference); the copy stays inside the scratch string when this holds.
\<close>

definition copy_fits :: "nat \<Rightarrow> u64 \<Rightarrow> string \<Rightarrow> bool" where
  "copy_fits n offset s = (unat offset + length s \<le> n)"

text \<open>
  \<^verbatim>\<open>store_data\<close>. \<open>left\<close> and \<open>right\<close> are positions in the buffer; position
  \<open>length buf\<close> is \<^verbatim>\<open>store_buffer_.end()\<close>. The line
  \<^verbatim>\<open>data_right = max( data_right, get<1>( *right ) )\<close> reads \<^verbatim>\<open>*right\<close>, which is the
  past-the-end element when \<open>right\<close> is the end. The scratch string \<^verbatim>\<open>temp_s\<close> is
  filled and then dropped: the element that is stored carries \<^verbatim>\<open>data\<close>. The counter
  \<^verbatim>\<open>store_data_size_\<close> is only ever decreased.
\<close>

definition store_data :: "string \<Rightarrow> u64 \<Rightarrow> u64 \<Rightarrow> Reassembler \<Rightarrow> error + Reassembler" where
  "store_data data begin end r =
     (let buf = store_buffer r;
          store_right = length buf;
          left = lower_bound buf 0 store_right begin;
          right = upper_bound buf left (store_right - left) end;
          data_left = (if left \<noteq> store_right then min begin (get0 (buf ! left)) else begin)
      in if right \<noteq> left \<and> right = store_right then Inl undefined_behaviour
         else
           (let data_right = (if right \<noteq> left then max end (get1 (buf ! right)) else end)
            in if of_nat (length data) = data_right - data_left + 1 \<and> left = right then
                 Inr (r\<lparr> store_buffer :=
                           take left buf @ [(data_left, data_right, data)] @ drop left buf \<rparr>)
               else
                 (let temp_size = unat (data_right - data_left + 1);
                      nodes = take (right - left) (drop left buf)
                  in if temp_size > string_max_size then Inl terminated
                     else if list_all (\<lambda>node. copy_fits temp_size (get0 node - data_left) (get2 node)) nodes
                             \<and> copy_fits temp_size (begin - data_left) data
                     then
                       Inr (r\<lparr> store_data_size :=
                                 fold (\<lambda>node size. size - of_nat (length (get2 node))) nodes
                                   (store_data_size r),
                               store_buffer :=
                                 take left buf @ [(data_left, data_right, data)] @ drop right buf \<rparr>)
                     else Inl undefined_behaviour)))"

text \<open>
  \<^verbatim>\<open>push_store_data_to_stream\<close>: the loop pops the front element while it starts at the
  cursor; afterwards the stream is closed when the flag is set and the buffer is empty.
\<close>

function push_store_loop :: "Reassembler \<times> Writer \<Rightarrow> Reassembler \<times> Writer" where
  "push_store_loop (r, output) =
     (case store_buffer r of
        [] \<Rightarrow> (r, output)
      | front # rest \<Rightarrow>
          if get0 front = next_stream_index r then
            (let r1 = r\<lparr> store_data_size := store_data_size r - of_nat (length (get2 front)) \<rparr>;
                 st2 = push_data_to_stream (get2 front) (r1, output)
             in push_store_loop ((fst st2)\<lparr> store_buffer := rest \<rparr>, snd st2))
          else (r, output))"
  by pat_completeness auto
termination
  by (relation "measure (\<lambda>st. length (store_buffer (fst st)))")
     (auto simp: push_data_to_stream_def)

definition push_store_data_to_stream :: "Reassembler \<times> Writer \<Rightarrow> Reassembler \<times> Writer" where
  "push_store_data_to_stream st =
     (case push_store_loop st of (r, output) \<Rightarrow>
        if had_last r \<and> store_buffer r = [] then (r, close output) else (r, output))"

text \<open>
  \<^verbatim>\<open>Reassembler::insert\<close>. The locals \<^verbatim>\<open>data_left\<close> and \<^verbatim>\<open>data_right\<close> are copies taken
  before the trimming: the left trim assigns \<^verbatim>\<open>first_index\<close> and \<^verbatim>\<open>data\<close> only, so
  \<^verbatim>\<open>data_left\<close> keeps the caller's index. In the left trim \<^verbatim>\<open>substr\<close> is called with
  a position that is at most the size of the data (the range reaches the cursor), so it
  does not throw. The function is named \<open>Reassembler_insert\<close>, as \<open>insert\<close> is a
  constant of HOL.
\<close>

definition Reassembler_insert ::
  "u64 \<Rightarrow> string \<Rightarrow> bool \<Rightarrow> Reassembler \<times> Writer \<Rightarrow> error + Reassembler \<times> Writer" where
  "Reassembler_insert first_index data is_last_substring st =
     (case st of (r, output) \<Rightarrow>
      if data = [] then
        (if is_last_substring then Inr (r, close output) else Inr (r, output))
      else
        (let data_left = first_index;
             data_right = first_index + of_nat (length data);
             enable_end_index = next_stream_index r + available_capacity output
         in if data_right < next_stream_index r \<or> enable_end_index \<le> first_index then Inr (r, output)
            else
              (let data1 = (if data_left < next_stream_index r
                            then drop (unat (next_stream_index r - first_index)) data else data);
                   trim = enable_end_index < data_right;
                   data_right2 = (if trim then enable_end_index else data_right);
                   is_last2 = (if trim then False else is_last_substring)
               in case (if trim then resize (unat (enable_end_index - data_left)) data1 else Inr data1) of
                    Inl e \<Rightarrow> Inl e
                  | Inr data2 \<Rightarrow>
                      (case (if data_left = next_stream_index r
                                \<and> (store_buffer r = [] \<or> data_right2 < get1 (hd (store_buffer r)))
                             then
                               (case (if store_buffer r \<noteq> []
                                      then resize (unat (min data_right2 (get0 (hd (store_buffer r)))
                                                           - data_left)) data2
                                      else Inr data2) of
                                  Inl e \<Rightarrow> Inl e
                                | Inr data3 \<Rightarrow> Inr (push_data_to_stream data3 (r, output)))
                             else
                               (case store_data data2 data_left (data_right2 - 1) r of
                                  Inl e \<Rightarrow> Inl e
                                | Inr r' \<Rightarrow> Inr (r', output))) of
                         Inl e \<Rightarrow> Inl e
                       | Inr (r3, output3) \<Rightarrow>
                           Inr (push_store_data_to_stream
                                  (r3\<lparr> had_last := had_last r3 \<or> is_last2 \<rparr>, output3))))))"

text \<open>The bytes held in the pending buffer: the sum of the sizes of the stored strings.\<close>

definition buffered_bytes :: "Reassembler \<Rightarrow> nat" where
  "buffered_bytes r = sum_list (map (\<lambda>node. length (get2 node)) (store_buffer r))"

text \<open>
  Modelled from the spec: a fresh output stream of the given capacity, nothing written
  and not closed.
\<close>

definition Writer_init :: "u64 \<Rightarrow> Writer" where
  "Writer_init cap = \<lparr> pushed = [], capacity_left = cap, closed = False \<rparr>"

text \<open>
  A caller's sequence of \<^verbatim>\<open>insert\<close> calls (first index, bytes, last flag), first call
  first; a failure ends the run.
\<close>

fun inserts :: "(u64 \<times> string \<times> bool) list \<Rightarrow> Reassembler \<times> Writer \<Rightarrow> error + Reassembler \<times> Writer" where
  "inserts [] st = Inr st"
| "inserts ((first_index, data, is_last_substring) # calls) st =
     (case Reassembler_insert first_index data is_last_substring st of
        Inl e \<Rightarrow> Inl e
      | Inr st' \<Rightarrow> inserts calls st')"

declare lower_bound.simps [simp del]
declare upper_bound.simps [simp del]
declare push_store_loop.simps [simp del]

section \<open>Properties of the Reassembler\<close>

subsection \<open>Evaluation lemmas\<close>

lemma lower_bound_none: "lower_bound buf first 0 v = first"
  by (simp add: lower_bound.simps)

lemma upper_bound_none: "upper_bound buf first 0 v = first"
  by (simp add: upper_bound.simps)

lemma push_store_loop_empty:
  "store_buffer r = [] \<Longrightarrow> push_store_loop (r, output) = (r, output)"
  by (simp add: push_store_loop.simps)

lemma push_store_loop_stuck:
  "store_buffer r = front # rest \<Longrightarrow> get0 front \<noteq> next_stream_index r \<Longrightarrow>
   push_store_loop (r, output) = (r, output)"
  by (simp add: push_store_loop.simps)

lemmas insert_eval =
  Reassembler_insert_def Reassembler_init_def Writer_init_def available_capacity_def store_data_def
  string_max_size_def copy_fits_def lower_bound_none upper_bound_none
  push_store_data_to_stream_def push_store_loop_empty push_store_loop_stuck
  push_data_to_stream_def push_def get0_def Let_def word_le_nat_alt word_less_nat_alt

lemma insert_abc:
  fixes cap :: u64
  assumes "4 \<le> cap"
  shows "Reassembler_insert 0 ''abc'' False (Reassembler_init, Writer_init cap) =
         Inr (\<lparr> store_buffer = [], next_stream_index = 3, store_data_size = 0, had_last = False \<rparr>,
              \<lparr> pushed = ''abc'', capacity_left = cap - 3, closed = False \<rparr>)"
proof -
  have "4 \<le> unat cap"
    using assms by (simp add: word_le_nat_alt)
  then show ?thesis
    by (simp add: insert_eval)
qed

lemma insert_bcd:
  fixes cap :: u64
  assumes "4 \<le> cap"
  shows "Reassembler_insert 1 ''bcd'' False
           (\<lparr> store_buffer = [], next_stream_index = 3, store_data_size = 0, had_last = False \<rparr>,
            \<lparr> pushed = ''abc'', capacity_left = cap - 3, closed = False \<rparr>) =
         Inr (\<lparr> store_buffer = [(1, 3, ''d'')], next_stream_index = 3, store_data_size = 0,
                 had_last = False \<rparr>,
              \<lparr> pushed = ''abc'', capacity_left = cap - 3, closed = False \<rparr>)"
proof -
  have "4 \<le> unat cap"
    using assms by (simp add: word_le_nat_alt)
  then show ?thesis
    by (simp add: insert_eval)
qed

subsection \<open>Ranges that are dropped\<close>

text \<open>
  The guard of \<^verbatim>\<open>insert\<close>: bytes whose end index is below the cursor, or whose first
  index is at or beyond the end of the window, leave everything as it was.
\<close>

lemma insert_dropped:
  assumes "data \<noteq> []"
    and "first_index + of_nat (length data) < next_stream_index r
         \<or> next_stream_index r + available_capacity output \<le> first_index"
  shows "Reassembler_insert first_index data is_last_substring (r, output) = Inr (r, output)"
  using assms by (auto simp: Reassembler_insert_def Let_def)

subsection \<open>The claims\<close>

text \<open>
  C9: for every state of the Reassembler and of the output, \<^verbatim>\<open>insert\<close> with empty
  bytes and the last flag set closes the output in that very call, whatever the pending
  buffer holds, and returns the Reassembler as it was: pending buffer, cursor, counter and
  flag are the same.
\<close>

theorem insert_empty_last_closes:
  "Reassembler_insert first_index [] True (r, output) = Inr (r, close output) \<and> closed (close output)"
  by (simp add: Reassembler_insert_def close_def)

text \<open>
  C3, evaluated: from an empty Reassembler and an output of capacity 8, the calls
  \<^verbatim>\<open>insert(0, "abc", false)\<close> and \<^verbatim>\<open>insert(1, "bcd", false)\<close> write \<^verbatim>\<open>"abc"\<close> and move the
  cursor to 3. The left trim of the second call cuts the data to \<^verbatim>\<open>"d"\<close> but leaves
  \<^verbatim>\<open>data_left\<close> at 1, so the byte of stream index 3 is not pushed: it is stored as the
  element \<^verbatim>\<open>(1, 3, "d")\<close>, which starts behind the cursor and is never drained. Sending
  \<^verbatim>\<open>"d"\<close> at index 3 again stores a second such element, and \<^verbatim>\<open>"e"\<close> at index 4 with
  the last flag leaves the output at \<^verbatim>\<open>"abc"\<close>, not closed.
\<close>

theorem insert_abc_bcd_misfiles:
  "case inserts [(0, ''abc'', False), (1, ''bcd'', False)] (Reassembler_init, Writer_init 8) of
     Inl e \<Rightarrow> False
   | Inr (r, output) \<Rightarrow>
       pushed output = ''abc'' \<and> next_stream_index r = 3 \<and> store_buffer r = [(1, 3, ''d'')]
       \<and> (case inserts [(3, ''d'', False), (4, ''e'', True)] (r, output) of
            Inl e \<Rightarrow> False
          | Inr (r', output') \<Rightarrow>
              pushed output' = ''abc'' \<and> \<not> closed output' \<and> next_stream_index r' = 3
              \<and> store_buffer r' = [(1, 3, ''d''), (1, 3, ''d''), (4, 4, ''e'')])"
proof -
  have h: "(4 :: u64) \<le> 8" by simp
  show ?thesis
    by (simp add: insert_abc [OF h] insert_bcd [OF h])
       (simp add: insert_eval lower_bound.simps upper_bound.simps get1_def min_def max_def)
qed

text \<open>
  C2, evaluated: an empty Reassembler has counter 0 and no bytes buffered. After
  \<^verbatim>\<open>insert(1, "b", false)\<close> with an output of capacity 2 the pending buffer holds the one
  byte \<^verbatim>\<open>"b"\<close>, and \<^verbatim>\<open>bytes_pending()\<close> still returns 0.
\<close>

theorem bytes_pending_after_store:
  "unat (bytes_pending Reassembler_init) = buffered_bytes Reassembler_init \<and>
   (case Reassembler_insert 1 ''b'' False (Reassembler_init, Writer_init 2) of
      Inl e \<Rightarrow> False
    | Inr (r, output) \<Rightarrow>
        store_buffer r = [(1, 1, ''b'')] \<and> buffered_bytes r = 1 \<and> bytes_pending r = 0)"
  by (simp add: insert_eval bytes_pending_def buffered_bytes_def get2_def)

text \<open>
  C4, evaluated: after \<^verbatim>\<open>insert(0, "a", false)\<close> into an empty Reassembler with an output
  of capacity 2 the cursor is 1 and nothing is pending. The same call again brings the
  range \<^verbatim>\<open>[0, 1)\<close>, which ends at the cursor; it is not dropped: the pending buffer gets
  an element with first index 0, last index 0 and no bytes.
\<close>

theorem insert_range_ending_at_cursor:
  "case Reassembler_insert 0 ''a'' False (Reassembler_init, Writer_init 2) of
     Inl e \<Rightarrow> False
   | Inr (r, output) \<Rightarrow>
       next_stream_index r = 1 \<and> store_buffer r = [] \<and> pushed output = ''a''
       \<and> (0 :: u64) + of_nat (length ''a'') \<le> next_stream_index r
       \<and> (case Reassembler_insert 0 ''a'' False (r, output) of
            Inl e \<Rightarrow> False
          | Inr (r', output') \<Rightarrow> store_buffer r' = [(0, 0, [])] \<and> output' = output)"
  by (simp add: insert_eval resize_def)

section \<open>Properties of the SequenceSpace\<close>

subsection \<open>Arithmetic on one lap of \<^verbatim>\<open>2^32\<close>\<close>

lemma mod_pair:
  fixes d :: int
  shows "(d mod 4294967296 = 0 \<and> (- d) mod 4294967296 = 0) \<or> d mod 4294967296 + (- d) mod 4294967296 = 4294967296"
  by (simp add: zmod_zminus1_eq_if)

lemma nearest_arith:
  fixes C n m :: int
  assumes C: "0 \<le> C" and m: "0 \<le> m" and cong: "m mod 4294967296 = n mod 4294967296"
  defines "L \<equiv> (C - n) mod 4294967296" and "R \<equiv> (n - C) mod 4294967296"
  defines "res \<equiv> (if L < R \<and> L \<le> C then C - L else C + R)"
  shows "res mod 4294967296 = n mod 4294967296 \<and> \<bar>res - C\<bar> \<le> \<bar>m - C\<bar> \<and> (\<bar>m - C\<bar> = \<bar>res - C\<bar> \<longrightarrow> m \<le> res)"
proof -
  have Lb: "0 \<le> L" "L < 4294967296" by (simp_all add: L_def)
  have Rb: "0 \<le> R" "R < 4294967296" by (simp_all add: R_def)
  have LR: "(L = 0 \<and> R = 0) \<or> L + R = 4294967296"
    using mod_pair[of "C - n"] by (simp add: L_def R_def)
  obtain k where k: "C - n = k * 4294967296 + L"
    unfolding L_def by (metis div_mult_mod_eq)
  have "(m - n) mod 4294967296 = 0"
    using cong by (metis mod_diff_cong cancel_comm_monoid_add_class.diff_cancel mod_0)
  then obtain j where j: "m - n = j * 4294967296"
    by (metis mod_eq_0_iff_dvd dvd_def mult.commute)
  define q where "q = j - k"
  have mq: "m = C - L + q * 4294967296"
    using k j by (simp add: q_def algebra_simps)
  have r1: "(C - L) mod 4294967296 = n mod 4294967296"
  proof -
    have "C - L = n + k * 4294967296" using k by simp
    then show ?thesis by simp
  qed
  have r2: "(C + R) mod 4294967296 = n mod 4294967296"
  proof -
    from LR have "C + R = C - L \<or> C + R = C - L + 1 * 4294967296" by auto
    then show ?thesis using r1 by (metis mod_mult_self1)
  qed
  have c1: "res mod 4294967296 = n mod 4294967296"
    using r1 r2 by (simp add: res_def)
  consider (le) "q \<le> 0" | (one) "q = 1" | (ge) "q \<ge> 2" by linarith
  then have c2: "\<bar>res - C\<bar> \<le> \<bar>m - C\<bar> \<and> (\<bar>m - C\<bar> = \<bar>res - C\<bar> \<longrightarrow> m \<le> res)"
  proof cases
    case le
    then have "q * 4294967296 \<le> 0" by simp
    with Lb Rb LR mq m C show ?thesis unfolding res_def by (auto split: if_splits)
  next
    case one
    with Lb Rb LR mq m C show ?thesis unfolding res_def by (auto split: if_splits)
  next
    case ge
    then have "q * 4294967296 \<ge> 2 * 4294967296" by simp
    with Lb Rb LR mq m C show ?thesis unfolding res_def by (auto split: if_splits)
  qed
  from c1 c2 show ?thesis by simp
qed

subsection \<open>The value of \<^verbatim>\<open>unwrap\<close> after \<^verbatim>\<open>wrap\<close>\<close>

lemma uint_ucast_down: "uint (ucast (c::u64) :: u32) = uint c mod 2^32"
  by (simp add: unsigned_ucast_eq take_bit_eq_mod)

lemma ucast_mod32: "(ucast ((c::u64) mod push_bit 32 1) :: u32) = ucast c"
proof -
  have "uint (ucast (c mod push_bit 32 1) :: u32) = uint (ucast c :: u32)"
    by (simp add: uint_ucast_down uint_mod)
  then show ?thesis by (simp only: word_uint_eq_iff)
qed

lemma ucast_one_shl32: "(ucast (push_bit 32 (1::u64)) :: u32) = 0"
  by simp

lemma uint_diff32: "uint ((ucast (c::u64) :: u32) - ucast (n :: u64)) = (uint c - uint n) mod 2^32"
  by (simp add: uint_word_ariths uint_ucast_down mod_diff_eq)

lemma uint_up_mod: "uint ((ucast (x::u32) :: u64) mod push_bit 32 1) = uint x"
proof -
  have "uint x < 2^32" using uint_bounded[of x] by simp
  then show ?thesis by (simp add: uint_mod uint_up_ucast is_up)
qed

lemma unwrap_left_wrap:
  "unwrap_left (wrap n z) z c = (ucast ((ucast c :: u32) - ucast n) :: u64) mod push_bit 32 1"
  unfolding unwrap_left_def unwrap_check_def wrap_def Wrap32_plus_def ucast_mod32 ucast_one_shl32
  by simp

lemma unwrap_right_wrap:
  "unwrap_right (wrap n z) z c = (ucast ((ucast n :: u32) - ucast c) :: u64) mod push_bit 32 1"
  unfolding unwrap_right_def unwrap_check_def wrap_def Wrap32_plus_def ucast_mod32 ucast_one_shl32
  by simp

lemma uint_unwrap_left: "uint (unwrap_left (wrap n z) z c) = (uint c - uint n) mod 4294967296"
  unfolding unwrap_left_wrap uint_up_mod uint_diff32 by simp

lemma uint_unwrap_right: "uint (unwrap_right (wrap n z) z c) = (uint n - uint c) mod 4294967296"
  unfolding unwrap_right_wrap uint_up_mod uint_diff32 by simp

lemma uint_unwrap_wrap:
  assumes "uint c + 2147483648 < 18446744073709551616"
  shows "uint (unwrap (wrap n z) z c) =
     (if (uint c - uint n) mod 4294967296 < (uint n - uint c) mod 4294967296
         \<and> (uint c - uint n) mod 4294967296 \<le> uint c
      then uint c - (uint c - uint n) mod 4294967296
      else uint c + (uint n - uint c) mod 4294967296)"
proof -
  define l where "l = unwrap_left (wrap n z) z c"
  define r where "r = unwrap_right (wrap n z) z c"
  have L: "uint l = (uint c - uint n) mod 4294967296" by (simp add: l_def uint_unwrap_left)
  have R: "uint r = (uint n - uint c) mod 4294967296" by (simp add: r_def uint_unwrap_right)
  have LR: "(uint l = 0 \<and> uint r = 0) \<or> uint l + uint r = 4294967296"
    using mod_pair[of "uint c - uint n"] by (simp add: L R)
  have Lb: "0 \<le> uint l" "uint l < 4294967296" by (simp_all add: L)
  have Rb: "0 \<le> uint r" "uint r < 4294967296" by (simp_all add: R)
  have u: "unwrap (wrap n z) z c = (if l < r \<and> l \<le> c then c - l else c + r)"
    by (simp add: unwrap_def l_def r_def Let_def)
  have "uint (unwrap (wrap n z) z c) =
          (if uint l < uint r \<and> uint l \<le> uint c then uint c - uint l else uint c + uint r)"
  proof (cases "l < r \<and> l \<le> c")
    case True
    then have T: "uint l < uint r \<and> uint l \<le> uint c"
      by (simp add: word_less_def word_le_def)
    then have "uint l \<le> uint c" by simp
    then have "uint (c - l) = uint c - uint l" by (rule uint_sub_lem [THEN iffD1])
    moreover have "unwrap (wrap n z) z c = c - l" by (subst u) (rule if_P [OF True])
    ultimately show ?thesis by (simp only: if_P [OF T])
  next
    case False
    then have F: "\<not> (uint l < uint r \<and> uint l \<le> uint c)"
      by (simp add: word_less_def word_le_def)
    have "uint c + uint r < 18446744073709551616"
      using F Lb Rb LR assms by auto
    then have "uint c + uint r < 2 ^ LENGTH(64)" by simp
    then have "uint (c + r) = uint c + uint r" by (rule uint_add_lem [THEN iffD1])
    moreover have "unwrap (wrap n z) z c = c + r" by (subst u) (rule if_not_P [OF False])
    ultimately show ?thesis by (simp only: if_not_P [OF F])
  qed
  then show ?thesis by (simp only: L R)
qed

subsection \<open>The claims\<close>

lemma int_distance: "int (distance a b) = \<bar>int a - int b\<bar>"
  by (simp add: distance_def)

lemma uint_unwrap_nearest:
  fixes n c :: u64 and m :: nat and zero_point :: Wrap32
  assumes c: "uint c + 2147483648 < 18446744073709551616"
    and m: "int m mod 4294967296 = uint n mod 4294967296"
  defines "res \<equiv> uint (unwrap (wrap n zero_point) zero_point c)"
  shows "res mod 4294967296 = uint n mod 4294967296
      \<and> \<bar>res - uint c\<bar> \<le> \<bar>int m - uint c\<bar>
      \<and> (\<bar>int m - uint c\<bar> = \<bar>res - uint c\<bar> \<longrightarrow> int m \<le> res)"
  unfolding res_def uint_unwrap_wrap [OF c]
  by (rule nearest_arith) (simp_all add: m)

text \<open>
  C1, as the code has it: for every absolute index \<open>n\<close>, zero point and checkpoint \<open>c\<close>
  with \<^verbatim>\<open>c + 2^31 < 2^64\<close>, \<^verbatim>\<open>unwrap(wrap(n, zero_point), zero_point, c)\<close> is congruent to
  \<open>n\<close> modulo \<^verbatim>\<open>2^32\<close>, no natural number \<open>m\<close> congruent to \<open>n\<close> is closer to \<open>c\<close>, and a
  congruent \<open>m\<close> that is equally close is not above it: of two equidistant candidates
  the larger one is returned.
\<close>

theorem unwrap_wrap_nearest:
  fixes n c :: u64 and zero_point :: Wrap32 and m :: nat
  assumes "unat c + 2 ^ 31 < 2 ^ 64"
    and "m mod 2 ^ 32 = unat n mod 2 ^ 32"
  shows "unat (unwrap (wrap n zero_point) zero_point c) mod 2 ^ 32 = unat n mod 2 ^ 32
       \<and> distance (unat (unwrap (wrap n zero_point) zero_point c)) (unat c) \<le> distance m (unat c)
       \<and> (distance m (unat c) = distance (unat (unwrap (wrap n zero_point) zero_point c)) (unat c)
            \<longrightarrow> m \<le> unat (unwrap (wrap n zero_point) zero_point c))"
proof -
  define res where "res = unat (unwrap (wrap n zero_point) zero_point c)"
  have ures: "uint (unwrap (wrap n zero_point) zero_point c) = int res"
    by (simp add: res_def)
  have uc: "uint c = int (unat c)" and un: "uint n = int (unat n)"
    by simp_all
  have "int (unat c + 2 ^ 31) < int (2 ^ 64)"
    using assms(1) by (rule less_imp_of_nat_less)
  then have c: "uint c + 2147483648 < 18446744073709551616"
    by simp
  have "int (m mod 2 ^ 32) = int (unat n mod 2 ^ 32)"
    using assms(2) by (rule arg_cong)
  then have m: "int m mod 4294967296 = uint n mod 4294967296"
    by (simp add: zmod_int)
  have k: "int res mod 4294967296 = int (unat n) mod 4294967296
      \<and> \<bar>int res - int (unat c)\<bar> \<le> \<bar>int m - int (unat c)\<bar>
      \<and> (\<bar>int m - int (unat c)\<bar> = \<bar>int res - int (unat c)\<bar> \<longrightarrow> int m \<le> int res)"
    using uint_unwrap_nearest [OF c m, of zero_point] unfolding ures uc un .
  have k1: "res mod 2 ^ 32 = unat n mod 2 ^ 32"
  proof -
    from k have "int (res mod 2 ^ 32) = int (unat n mod 2 ^ 32)" by (simp add: zmod_int)
    then show ?thesis by (simp only: of_nat_eq_iff)
  qed
  have k2: "distance res (unat c) \<le> distance m (unat c)"
  proof -
    from k have "int (distance res (unat c)) \<le> int (distance m (unat c))"
      by (simp only: int_distance)
    then show ?thesis by (simp only: of_nat_le_iff)
  qed
  have k3: "distance m (unat c) = distance res (unat c) \<longrightarrow> m \<le> res"
  proof
    assume "distance m (unat c) = distance res (unat c)"
    then have "int (distance m (unat c)) = int (distance res (unat c))" by simp
    then have "\<bar>int m - int (unat c)\<bar> = \<bar>int res - int (unat c)\<bar>" by (simp only: int_distance)
    with k have "int m \<le> int res" by blast
    then show "m \<le> res" by (simp only: of_nat_le_iff)
  qed
  from k1 k2 k3 show ?thesis unfolding res_def by blast
qed


lemmas unwrap_eval =
  unwrap_def unwrap_left_def unwrap_right_def unwrap_check_def wrap_def Wrap32_plus_def distance_def

theorem unwrap_wrap_nearest_witness:
  "unat (2 ^ 31 :: u64) + 2 ^ 31 < 2 ^ 64
   \<and> (0 :: nat) mod 2 ^ 32 = unat (0 :: u64) mod 2 ^ 32
   \<and> unat (unwrap (wrap 0 (Wrap32 0)) (Wrap32 0) (2 ^ 31)) = 2 ^ 32
   \<and> distance 0 (unat (2 ^ 31 :: u64)) = distance (unat (unwrap (wrap 0 (Wrap32 0)) (Wrap32 0) (2 ^ 31))) (unat (2 ^ 31 :: u64))
   \<and> 0 \<le> unat (unwrap (wrap 0 (Wrap32 0)) (Wrap32 0) (2 ^ 31))"
proof -
  have h1: "unat (2 ^ 31 :: u64) + 2 ^ 31 < 2 ^ 64" by simp
  have h2: "(0 :: nat) mod 2 ^ 32 = unat (0 :: u64) mod 2 ^ 32" by simp
  have v: "unat (unwrap (wrap 0 (Wrap32 0)) (Wrap32 0) (2 ^ 31)) = 2 ^ 32"
    by (simp add: unwrap_eval)
  from unwrap_wrap_nearest [OF h1 h2, of "Wrap32 0"] h1 h2 v show ?thesis
    by (simp add: distance_def)
qed

text \<open>
  C1 as stated fails on a tie: with \<open>n = 0\<close>, zero point 0 and checkpoint \<^verbatim>\<open>2^31\<close> the
  candidates 0 and \<^verbatim>\<open>2^32\<close> are equally far from the checkpoint, and the result is
  \<^verbatim>\<open>2^32\<close>, not the smaller candidate 0.
\<close>

theorem unwrap_tie_counterexample:
  "unat (unwrap (wrap 0 (Wrap32 0)) (Wrap32 0) (2 ^ 31)) = 2 ^ 32
   \<and> (0 :: nat) mod 2 ^ 32 = unat (0 :: u64) mod 2 ^ 32
   \<and> distance 0 (unat (2 ^ 31 :: u64)) = distance (2 ^ 32) (unat (2 ^ 31 :: u64))
   \<and> (0 :: nat) < 2 ^ 32"
  by (simp add: unwrap_eval)

text \<open>
  Near the top of the 64-bit range the sum \<^verbatim>\<open>checkpoint + right\<close> wraps: for checkpoint
  \<^verbatim>\<open>2^64 - 1\<close> and \<open>n = 0\<close> the result is 0, although \<^verbatim>\<open>2^64 - 2^32\<close> is congruent and
  closer.
\<close>

lemma unwrap_wraps_at_top:
  "unwrap (wrap 0 (Wrap32 0)) (Wrap32 0) (2 ^ 64 - 1) = 0
   \<and> (2 ^ 64 - 2 ^ 32 :: nat) mod 2 ^ 32 = unat (0 :: u64) mod 2 ^ 32
   \<and> distance (2 ^ 64 - 2 ^ 32) (unat (2 ^ 64 - 1 :: u64)) < distance 0 (unat (2 ^ 64 - 1 :: u64))"
  by (simp add: unwrap_eval)

text \<open>
  C10: \<^verbatim>\<open>unwrap\<close> returns a 64-bit value for every value, zero point and checkpoint.
  When the guard \<^verbatim>\<open>left < right && checkpoint >= left\<close> holds the result is
  \<^verbatim>\<open>checkpoint - left\<close>, and this difference does not wrap: as an integer it is the
  difference of the two integers and is not negative. Whenever the guard fails, in
  particular when \<^verbatim>\<open>checkpoint < left\<close>, the result is \<^verbatim>\<open>checkpoint + right\<close>.
\<close>

theorem unwrap_subtraction_guarded:
  "(unwrap_left w z c < unwrap_right w z c \<and> unwrap_left w z c \<le> c \<longrightarrow>
      unwrap w z c = c - unwrap_left w z c
      \<and> uint (unwrap w z c) = uint c - uint (unwrap_left w z c)
      \<and> 0 \<le> uint c - uint (unwrap_left w z c))
   \<and> (\<not> (unwrap_left w z c < unwrap_right w z c \<and> unwrap_left w z c \<le> c) \<longrightarrow>
      unwrap w z c = c + unwrap_right w z c)"
proof -
  have "uint (c - unwrap_left w z c) = uint c - uint (unwrap_left w z c)"
    if "unwrap_left w z c \<le> c"
  proof -
    from that have "uint (unwrap_left w z c) \<le> uint c" by (simp add: word_le_def)
    then show ?thesis by (rule uint_sub_lem [THEN iffD1])
  qed
  moreover have "0 \<le> uint c - uint (unwrap_left w z c)" if "unwrap_left w z c \<le> c"
    using that by (simp add: word_le_def)
  ultimately show ?thesis
    by (simp add: unwrap_def Let_def)
qed

theorem unwrap_subtraction_guarded_witness:
  "unwrap_left (Wrap32 1) (Wrap32 0) 5 < unwrap_right (Wrap32 1) (Wrap32 0) 5
   \<and> unwrap_left (Wrap32 1) (Wrap32 0) 5 \<le> 5
   \<and> unwrap (Wrap32 1) (Wrap32 0) 5 = 5 - unwrap_left (Wrap32 1) (Wrap32 0) 5
   \<and> uint (unwrap (Wrap32 1) (Wrap32 0) 5) = 1
   \<and> \<not> unwrap_left (Wrap32 (- 1)) (Wrap32 0) 0 \<le> 0
   \<and> unwrap (Wrap32 (- 1)) (Wrap32 0) 0 = 0 + unwrap_right (Wrap32 (- 1)) (Wrap32 0) 0
   \<and> unwrap (Wrap32 (- 1)) (Wrap32 0) 0 = 2 ^ 32 - 1"
proof -
  have g1: "unwrap_left (Wrap32 1) (Wrap32 0) 5 < unwrap_right (Wrap32 1) (Wrap32 0) 5
            \<and> unwrap_left (Wrap32 1) (Wrap32 0) 5 \<le> 5"
    by (simp add: unwrap_eval word_less_nat_alt word_le_nat_alt)
  have l1: "unwrap_left (Wrap32 1) (Wrap32 0) 5 = 4"
    by (simp add: unwrap_eval)
  have g2: "\<not> (unwrap_left (Wrap32 (- 1)) (Wrap32 0) 0 < unwrap_right (Wrap32 (- 1)) (Wrap32 0) 0
                \<and> unwrap_left (Wrap32 (- 1)) (Wrap32 0) 0 \<le> 0)"
    by (simp add: unwrap_eval word_less_nat_alt word_le_nat_alt)
  have l2: "unwrap_left (Wrap32 (- 1)) (Wrap32 0) 0 = 1" "unwrap_right (Wrap32 (- 1)) (Wrap32 0) 0 = 2 ^ 32 - 1"
    by (simp_all add: unwrap_eval)
  from unwrap_subtraction_guarded [of "Wrap32 1" "Wrap32 0" 5]
       unwrap_subtraction_guarded [of "Wrap32 (- 1)" "Wrap32 0" 0] g1 g2
  show ?thesis
    by (simp add: l1 l2)
qed

section \<open>Properties of the NetworkInterface\<close>

subsection \<open>Sending\<close>

lemma type_tags_differ: "TYPE_ARP \<noteq> TYPE_IPv4" "OPCODE_REPLY \<noteq> OPCODE_REQUEST"
  by (simp_all add: TYPE_ARP_def TYPE_IPv4_def OPCODE_REPLY_def OPCODE_REQUEST_def)

lemma send_datagram_ip2ether [simp]: "ip2ether (send_datagram cd dgram ip s) = ip2ether s"
  by (simp add: send_datagram_def Let_def split: option.splits)

lemma send_datagram_addresses [simp]:
  "ethernet_address (send_datagram cd dgram ip s) = ethernet_address s"
  "ip_address (send_datagram cd dgram ip s) = ip_address s"
  by (simp_all add: send_datagram_def Let_def split: option.splits)

lemma resend_all_ip2ether [simp]: "ip2ether (resend_all cd dgrams ip s) = ip2ether s"
  by (induction dgrams arbitrary: s) simp_all

lemma send_datagram_resolved:
  assumes "ip2ether s ip = Some (eth, age)"
  shows "send_datagram cd dgram ip s =
         s\<lparr> out_frames := out_frames s @
              [\<lparr> header = \<lparr> dst = eth, src = ethernet_address s, ether_type = TYPE_IPv4 \<rparr>,
                 payload = serialize_dgram cd dgram \<rparr>] \<rparr>"
  using assms by (simp add: send_datagram_def)

lemma resend_all_resolved:
  assumes "ip2ether s ip = Some (eth, age)"
  shows "resend_all cd dgrams ip s =
         s\<lparr> out_frames := out_frames s @
              map (\<lambda>dgram. \<lparr> header = \<lparr> dst = eth, src = ethernet_address s, ether_type = TYPE_IPv4 \<rparr>,
                              payload = serialize_dgram cd dgram \<rparr>) dgrams \<rparr>"
  using assms
proof (induction dgrams arbitrary: s)
  case Nil
  then show ?case by simp
next
  case (Cons dgram dgrams)
  have "ip2ether (send_datagram cd dgram ip s) ip = Some (eth, age)"
    using Cons.prems by simp
  from Cons.IH [OF this] show ?case
    by (simp add: send_datagram_resolved [OF Cons.prems])
qed

subsection \<open>Receiving\<close>

lemma map_insert_lookup:
  "map_insert m k v k = (case m k of None \<Rightarrow> Some v | Some old \<Rightarrow> Some old)"
  by (simp add: map_insert_def split: option.splits)

lemma map_insert_twice: "map_insert (map_insert m k v) k v = map_insert m k v"
  by (simp add: map_insert_def split: option.splits)

lemma recv_arp_ip2ether:
  "ip2ether (recv_arp cd msg s) =
     map_insert (ip2ether s) (sender_ip_address msg) (sender_ethernet_address msg, 0)"
  by (simp add: recv_arp_def Let_def map_insert_twice)

subsection \<open>Frames that are ignored, frames that teach\<close>

text \<open>
  C8: a frame whose destination is neither the Ethernet address of the interface nor the
  broadcast address makes \<^verbatim>\<open>recv_frame\<close> return nothing and leaves the whole interface
  as it was: resolution cache, request timers, waiting datagrams and outbound frames.
\<close>

theorem recv_frame_not_addressed:
  assumes "dst (header frame) \<noteq> ethernet_address s"
    and "dst (header frame) \<noteq> ETHERNET_BROADCAST"
  shows "recv_frame cd frame s = (None, s)"
  using assms by (simp add: recv_frame_def)

text \<open>
  C5, as the code has it: for every ARP frame that \<^verbatim>\<open>recv_frame\<close> accepts and parses,
  whatever its opcode, no datagram is returned and the resolution cache afterwards holds
  an entry for the sender's IP address: a new one with the sender's Ethernet address and
  age 0 when there was none, the old one with its address and age when there was one.
\<close>

theorem recv_frame_arp_learns:
  assumes "dst (header frame) = ethernet_address s \<or> dst (header frame) = ETHERNET_BROADCAST"
    and "ether_type (header frame) = TYPE_ARP"
    and "parse_arp cd (payload frame) = Some msg"
  shows "fst (recv_frame cd frame s) = None \<and>
         ip2ether (snd (recv_frame cd frame s)) (sender_ip_address msg) =
           (case ip2ether s (sender_ip_address msg) of
              None \<Rightarrow> Some (sender_ethernet_address msg, 0)
            | Some entry \<Rightarrow> Some entry)"
  using assms
  by (auto simp: recv_frame_def type_tags_differ recv_arp_ip2ether map_insert_lookup)


subsection \<open>Ticks\<close>

lemma tick_fields [simp]:
  "out_frames (tick ms s) = out_frames s"
  "waited_dgrams (tick ms s) = waited_dgrams s"
  "ethernet_address (tick ms s) = ethernet_address s"
  "ip_address (tick ms s) = ip_address s"
  by (simp_all add: tick_def)

lemma ticks_fields [simp]:
  "out_frames (ticks ts s) = out_frames s"
  "waited_dgrams (ticks ts s) = waited_dgrams s"
  "ethernet_address (ticks ts s) = ethernet_address s"
  "ip_address (ticks ts s) = ip_address s"
  by (induction ts arbitrary: s) simp_all

lemma tick_ip2ether_None: "ip2ether s ip = None \<Longrightarrow> ip2ether (tick ms s) ip = None"
  by (simp add: tick_def)

lemma ticks_ip2ether_None: "ip2ether s ip = None \<Longrightarrow> ip2ether (ticks ts s) ip = None"
  by (induction ts arbitrary: s) (simp_all add: tick_ip2ether_None)

lemma tick_ip2ether_Some:
  "ip2ether s ip = Some (eth, age) \<Longrightarrow>
   ip2ether (tick ms s) ip = (if IP_MAP_TTL \<le> age + ms then None else Some (eth, age + ms))"
  by (simp add: tick_def)

lemma tick_arp_timer_Some:
  "arp_timer s ip = Some age \<Longrightarrow>
   arp_timer (tick ms s) ip = (if ARP_REQUEST_TTL \<le> age + ms then None else Some (age + ms))"
  by (simp add: tick_def)

lemma unat_age_sum:
  fixes age ms :: u64
  assumes "unat age + unat ms < 2 ^ 64"
  shows "unat (age + ms) = unat age + unat ms"
proof -
  have "unat age + unat ms < 2 ^ LENGTH(64)" using assms by simp
  then show ?thesis by (rule unat_add_lem [THEN iffD1])
qed

lemma ticks_ip2ether_alive:
  assumes "ip2ether s ip = Some (eth, age)"
    and "unat age + sum_list (map unat ts) < 30000"
  shows "ip2ether (ticks ts s) ip = Some (eth, age + of_nat (sum_list (map unat ts)))"
  using assms
proof (induction ts arbitrary: s age)
  case Nil
  then show ?case by simp
next
  case (Cons ms ts)
  have u: "unat (age + ms) = unat age + unat ms"
    using Cons.prems(2) by (intro unat_age_sum) simp
  have "\<not> IP_MAP_TTL \<le> age + ms"
    using Cons.prems(2) by (simp add: IP_MAP_TTL_def word_le_nat_alt u)
  then have "ip2ether (tick ms s) ip = Some (eth, age + ms)"
    by (simp add: tick_ip2ether_Some [OF Cons.prems(1)])
  moreover have "unat (age + ms) + sum_list (map unat ts) < 30000"
    using Cons.prems(2) by (simp add: u)
  ultimately have "ip2ether (ticks ts (tick ms s)) ip =
      Some (eth, age + ms + of_nat (sum_list (map unat ts)))"
    by (rule Cons.IH)
  then show ?case by (simp add: add.assoc)
qed

lemma ticks_ip2ether_expired:
  assumes "ip2ether s ip = Some (eth, age)"
    and "unat age < 30000"
    and "30000 \<le> unat age + sum_list (map unat ts)"
    and "unat age + sum_list (map unat ts) < 2 ^ 64"
  shows "ip2ether (ticks ts s) ip = None"
  using assms
proof (induction ts arbitrary: s age)
  case Nil
  then show ?case by simp
next
  case (Cons ms ts)
  have u: "unat (age + ms) = unat age + unat ms"
    using Cons.prems(4) by (intro unat_age_sum) simp
  show ?case
  proof (cases "IP_MAP_TTL \<le> age + ms")
    case True
    then have "ip2ether (tick ms s) ip = None"
      by (simp add: tick_ip2ether_Some [OF Cons.prems(1)])
    then show ?thesis by (simp add: ticks_ip2ether_None)
  next
    case False
    then have e: "ip2ether (tick ms s) ip = Some (eth, age + ms)"
      by (simp add: tick_ip2ether_Some [OF Cons.prems(1)])
    have l: "unat (age + ms) < 30000"
      using False by (simp add: IP_MAP_TTL_def word_le_nat_alt)
    have "ip2ether (ticks ts (tick ms s)) ip = None"
      using Cons.prems(3,4) by (intro Cons.IH [OF e l]) (simp_all add: u)
    then show ?thesis by simp
  qed
qed

lemma ticks_arp_timer_alive:
  assumes "arp_timer s ip = Some age"
    and "unat age + sum_list (map unat ts) < 5000"
  shows "arp_timer (ticks ts s) ip = Some (age + of_nat (sum_list (map unat ts)))"
  using assms
proof (induction ts arbitrary: s age)
  case Nil
  then show ?case by simp
next
  case (Cons ms ts)
  have u: "unat (age + ms) = unat age + unat ms"
    using Cons.prems(2) by (intro unat_age_sum) simp
  have "\<not> ARP_REQUEST_TTL \<le> age + ms"
    using Cons.prems(2) by (simp add: ARP_REQUEST_TTL_def word_le_nat_alt u)
  then have "arp_timer (tick ms s) ip = Some (age + ms)"
    by (simp add: tick_arp_timer_Some [OF Cons.prems(1)])
  moreover have "unat (age + ms) + sum_list (map unat ts) < 5000"
    using Cons.prems(2) by (simp add: u)
  ultimately have "arp_timer (ticks ts (tick ms s)) ip =
      Some (age + ms + of_nat (sum_list (map unat ts)))"
    by (rule Cons.IH)
  then show ?case by (simp add: add.assoc)
qed


subsection \<open>Sending to an address that is not resolved\<close>

lemma send_datagram_first:
  assumes "ip2ether s ip = None" and "arp_timer s ip = None" and "waited_dgrams s ip = None"
  shows "send_datagram cd dgram ip s =
         s\<lparr> out_frames := out_frames s @
              [\<lparr> header = \<lparr> dst = ETHERNET_BROADCAST, src = ethernet_address s, ether_type = TYPE_ARP \<rparr>,
                 payload = serialize_arp cd
                   (ARPMessage_default
                      \<lparr> opcode := OPCODE_REQUEST,
                        sender_ethernet_address := ethernet_address s,
                        sender_ip_address := ip_address s,
                        target_ip_address := ip \<rparr>) \<rparr>],
            arp_timer := (arp_timer s)(ip \<mapsto> 0),
            waited_dgrams := (waited_dgrams s)(ip \<mapsto> [dgram]) \<rparr>"
  using assms by (simp add: send_datagram_def map_insert_def)

text \<open>
  When the request timer of an address has run out and datagrams are still waiting for
  it, \<^verbatim>\<open>waited_dgrams_.insert\<close> finds the key and keeps the old list: a new request is
  sent, and the datagram at hand is not queued.
\<close>

lemma send_datagram_keeps_waiting_list:
  assumes "ip2ether s ip = None" and "arp_timer s ip = None" and "waited_dgrams s ip = Some dgrams"
  shows "waited_dgrams (send_datagram cd dgram ip s) ip = Some dgrams"
  using assms by (simp add: send_datagram_def map_insert_def)

lemma send_datagram_waiting:
  assumes "ip2ether s ip = None" and "arp_timer s ip = Some age" and "waited_dgrams s ip = Some dgrams"
  shows "send_datagram cd dgram ip s = s\<lparr> waited_dgrams := (waited_dgrams s)(ip \<mapsto> dgrams @ [dgram]) \<rparr>"
  using assms by (simp add: send_datagram_def map_index_def)

lemma recv_arp_reply:
  assumes "opcode msg = OPCODE_REPLY"
    and "ip2ether s (sender_ip_address msg) = None"
  shows "recv_arp cd msg s =
         s\<lparr> ip2ether := (ip2ether s)(sender_ip_address msg \<mapsto> (sender_ethernet_address msg, 0)),
            out_frames := out_frames s @
              map (\<lambda>dgram. \<lparr> header = \<lparr> dst = sender_ethernet_address msg, src = ethernet_address s,
                                          ether_type = TYPE_IPv4 \<rparr>,
                              payload = serialize_dgram cd dgram \<rparr>)
                  (map_index (waited_dgrams s) (sender_ip_address msg)),
            waited_dgrams := (waited_dgrams s)(sender_ip_address msg := None) \<rparr>"
proof -
  define s2 where "s2 = s\<lparr> ip2ether := (ip2ether s)(sender_ip_address msg \<mapsto> (sender_ethernet_address msg, 0)) \<rparr>"
  have c: "ip2ether s2 (sender_ip_address msg) = Some (sender_ethernet_address msg, 0)"
    by (simp add: s2_def)
  have "recv_arp cd msg s =
        (let s3 = resend_all cd (map_index (waited_dgrams s2) (sender_ip_address msg)) (sender_ip_address msg) s2
         in s3\<lparr> waited_dgrams := (waited_dgrams s3)(sender_ip_address msg := None) \<rparr>)"
    using assms by (simp add: recv_arp_def Let_def type_tags_differ map_insert_def s2_def)
  then show ?thesis
    by (simp add: resend_all_resolved [OF c] Let_def) (simp add: s2_def)
qed

text \<open>
  From an address with no cache entry, no request timer and no waiting datagrams: two
  calls of \<^verbatim>\<open>send_datagram\<close> for it, with ticks of less than 5000 ms in total between
  them, enqueue exactly one frame, the broadcast ARP request. After any further ticks, an
  accepted ARP reply whose sender is that IP address returns no datagram and enqueues
  exactly two frames, of type IPv4, addressed to the sender's Ethernet address, carrying
  the first and then the second datagram; nothing stays waiting for that address.
\<close>

lemma two_datagrams_one_request:
  assumes "ip2ether s ip = None" and "arp_timer s ip = None" and "waited_dgrams s ip = None"
    and "sum_list (map unat ts1) < 5000"
    and "dst (header frame) = ethernet_address s \<or> dst (header frame) = ETHERNET_BROADCAST"
    and "ether_type (header frame) = TYPE_ARP"
    and "parse_arp cd (payload frame) = Some msg"
    and "opcode msg = OPCODE_REPLY"
    and "sender_ip_address msg = ip"
  shows "let s3 = send_datagram cd d2 ip (ticks ts1 (send_datagram cd d1 ip s));
             s5 = recv_frame cd frame (ticks ts2 s3)
         in out_frames s3 = out_frames s @
              [\<lparr> header = \<lparr> dst = ETHERNET_BROADCAST, src = ethernet_address s, ether_type = TYPE_ARP \<rparr>,
                 payload = serialize_arp cd
                   (ARPMessage_default
                      \<lparr> opcode := OPCODE_REQUEST,
                        sender_ethernet_address := ethernet_address s,
                        sender_ip_address := ip_address s,
                        target_ip_address := ip \<rparr>) \<rparr>]
            \<and> fst s5 = None
            \<and> out_frames (snd s5) = out_frames s3 @
              [\<lparr> header = \<lparr> dst = sender_ethernet_address msg, src = ethernet_address s,
                            ether_type = TYPE_IPv4 \<rparr>,
                 payload = serialize_dgram cd d1 \<rparr>,
               \<lparr> header = \<lparr> dst = sender_ethernet_address msg, src = ethernet_address s,
                            ether_type = TYPE_IPv4 \<rparr>,
                 payload = serialize_dgram cd d2 \<rparr>]
            \<and> waited_dgrams (snd s5) ip = None"
proof -
  define s1 where "s1 = send_datagram cd d1 ip s"
  define s2 where "s2 = ticks ts1 s1"
  define s3 where "s3 = send_datagram cd d2 ip s2"
  define s4 where "s4 = ticks ts2 s3"
  have s1: "ip2ether s1 ip = None" "arp_timer s1 ip = Some 0" "waited_dgrams s1 ip = Some [d1]"
    "ethernet_address s1 = ethernet_address s"
    unfolding s1_def send_datagram_first [OF assms(1-3)] by (simp_all add: assms(1))
  have o1: "out_frames s1 = out_frames s @
              [\<lparr> header = \<lparr> dst = ETHERNET_BROADCAST, src = ethernet_address s, ether_type = TYPE_ARP \<rparr>,
                 payload = serialize_arp cd
                   (ARPMessage_default
                      \<lparr> opcode := OPCODE_REQUEST,
                        sender_ethernet_address := ethernet_address s,
                        sender_ip_address := ip_address s,
                        target_ip_address := ip \<rparr>) \<rparr>]"
    unfolding s1_def send_datagram_first [OF assms(1-3)] by simp
  have t2: "arp_timer s2 ip = Some (0 + of_nat (sum_list (map unat ts1)))"
    unfolding s2_def using s1(2) assms(4) by (intro ticks_arp_timer_alive) simp_all
  have s2: "ip2ether s2 ip = None" "waited_dgrams s2 ip = Some [d1]" "out_frames s2 = out_frames s1"
    "ethernet_address s2 = ethernet_address s"
    unfolding s2_def using s1 by (simp_all add: ticks_ip2ether_None)
  have e3: "s3 = s2\<lparr> waited_dgrams := (waited_dgrams s2)(ip \<mapsto> [d1] @ [d2]) \<rparr>"
    unfolding s3_def by (rule send_datagram_waiting [OF s2(1) t2 s2(2)])
  have s3: "ip2ether s3 ip = None" "waited_dgrams s3 ip = Some [d1, d2]" "out_frames s3 = out_frames s1"
    "ethernet_address s3 = ethernet_address s"
    unfolding e3 using s2 by simp_all
  have s4: "ip2ether s4 ip = None" "waited_dgrams s4 ip = Some [d1, d2]" "out_frames s4 = out_frames s3"
    "ethernet_address s4 = ethernet_address s"
    unfolding s4_def using s3 by (simp_all add: ticks_ip2ether_None)
  have r: "recv_frame cd frame s4 = (None, recv_arp cd msg s4)"
    using assms(5-7) s4(4) by (auto simp: recv_frame_def type_tags_differ)
  have c: "ip2ether s4 (sender_ip_address msg) = None"
    using s4(1) assms(9) by simp
  have "fst (recv_frame cd frame s4) = None
      \<and> out_frames (snd (recv_frame cd frame s4)) = out_frames s3 @
              [\<lparr> header = \<lparr> dst = sender_ethernet_address msg, src = ethernet_address s,
                            ether_type = TYPE_IPv4 \<rparr>,
                 payload = serialize_dgram cd d1 \<rparr>,
               \<lparr> header = \<lparr> dst = sender_ethernet_address msg, src = ethernet_address s,
                            ether_type = TYPE_IPv4 \<rparr>,
                 payload = serialize_dgram cd d2 \<rparr>]
      \<and> waited_dgrams (snd (recv_frame cd frame s4)) ip = None"
    unfolding r recv_arp_reply [OF assms(8) c]
    using s4 assms(9) by (simp add: map_index_def)
  then show ?thesis
    using o1 s3(3) unfolding Let_def s4_def s3_def s2_def s1_def by simp
qed

subsection \<open>Lifetime of a cache entry\<close>

text \<open>
  C7, as the code has it: an entry of the resolution cache that has just been created
  (age 0) is still there, with the same
  Ethernet address, after any sequence of ticks that add up to less than 30000 ms, and
  \<^verbatim>\<open>send_datagram\<close> then enqueues the IPv4 frame for that address; after any sequence of
  ticks that add up to 30000 ms or more (below the range of \<^verbatim>\<open>size_t\<close>) the entry is
  gone.
\<close>

theorem cache_entry_lifetime:
  assumes "ip2ether s ip = Some (eth, 0)"
  shows "(sum_list (map unat ts) < 30000 \<longrightarrow>
            ip2ether (ticks ts s) ip = Some (eth, of_nat (sum_list (map unat ts)))
            \<and> out_frames (send_datagram cd dgram ip (ticks ts s)) = out_frames s @
                [\<lparr> header = \<lparr> dst = eth, src = ethernet_address s, ether_type = TYPE_IPv4 \<rparr>,
                   payload = serialize_dgram cd dgram \<rparr>])
       \<and> (30000 \<le> sum_list (map unat ts) \<and> sum_list (map unat ts) < 2 ^ 64 \<longrightarrow>
            ip2ether (ticks ts s) ip = None)"
proof (intro conjI impI)
  assume a: "sum_list (map unat ts) < 30000"
  have "ip2ether (ticks ts s) ip = Some (eth, 0 + of_nat (sum_list (map unat ts)))"
    using assms a by (intro ticks_ip2ether_alive) simp_all
  then show e: "ip2ether (ticks ts s) ip = Some (eth, of_nat (sum_list (map unat ts)))"
    by simp
  show "out_frames (send_datagram cd dgram ip (ticks ts s)) = out_frames s @
          [\<lparr> header = \<lparr> dst = eth, src = ethernet_address s, ether_type = TYPE_IPv4 \<rparr>,
             payload = serialize_dgram cd dgram \<rparr>]"
    by (simp add: send_datagram_resolved [OF e])
next
  assume "30000 \<le> sum_list (map unat ts) \<and> sum_list (map unat ts) < 2 ^ 64"
  then show "ip2ether (ticks ts s) ip = None"
    using assms by (intro ticks_ip2ether_expired [where age = 0 and eth = eth]) simp_all
qed


subsection \<open>Examples\<close>

lemmas example_eval =
  host_def NetworkInterface_init_def arp_frame_def tagged_codec_def host_eth_def peer_eth_def
  other_eth_def host_ip_def peer_ip_def ETHERNET_BROADCAST_def TYPE_ARP_def TYPE_IPv4_def
  OPCODE_REQUEST_def OPCODE_REPLY_def

theorem recv_frame_not_addressed_witness:
  "dst (header (arp_frame other_eth OPCODE_REPLY peer_eth)) \<noteq> ethernet_address host
   \<and> dst (header (arp_frame other_eth OPCODE_REPLY peer_eth)) \<noteq> ETHERNET_BROADCAST
   \<and> recv_frame tagged_codec (arp_frame other_eth OPCODE_REPLY peer_eth) host = (None, host)"
proof -
  have h1: "dst (header (arp_frame other_eth OPCODE_REPLY peer_eth)) \<noteq> ethernet_address host"
    by (simp add: example_eval)
  have h2: "dst (header (arp_frame other_eth OPCODE_REPLY peer_eth)) \<noteq> ETHERNET_BROADCAST"
    by (simp add: example_eval)
  from recv_frame_not_addressed [OF h1 h2, of tagged_codec] h1 h2 show ?thesis
    by simp
qed

theorem recv_frame_arp_learns_witness:
  "dst (header (arp_frame ETHERNET_BROADCAST OPCODE_REQUEST peer_eth)) = ETHERNET_BROADCAST
   \<and> ether_type (header (arp_frame ETHERNET_BROADCAST OPCODE_REQUEST peer_eth)) = TYPE_ARP
   \<and> ip2ether host peer_ip = None
   \<and> ip2ether (snd (recv_frame tagged_codec (arp_frame ETHERNET_BROADCAST OPCODE_REQUEST peer_eth) host)) peer_ip
       = Some (peer_eth, 0)"
proof -
  define msg where "msg = \<lparr> opcode = OPCODE_REQUEST, sender_ethernet_address = peer_eth,
     sender_ip_address = peer_ip, target_ethernet_address = host_eth, target_ip_address = host_ip \<rparr>"
  have h1: "dst (header (arp_frame ETHERNET_BROADCAST OPCODE_REQUEST peer_eth)) = ethernet_address host
            \<or> dst (header (arp_frame ETHERNET_BROADCAST OPCODE_REQUEST peer_eth)) = ETHERNET_BROADCAST"
    by (simp add: arp_frame_def)
  have h2: "ether_type (header (arp_frame ETHERNET_BROADCAST OPCODE_REQUEST peer_eth)) = TYPE_ARP"
    by (simp add: arp_frame_def)
  have h3: "parse_arp tagged_codec (payload (arp_frame ETHERNET_BROADCAST OPCODE_REQUEST peer_eth)) = Some msg"
    by (simp add: arp_frame_def tagged_codec_def msg_def)
  have e: "ip2ether host peer_ip = None"
    by (simp add: host_def NetworkInterface_init_def)
  from recv_frame_arp_learns [OF h1 h2 h3] h1 h2 e show ?thesis
    by (simp add: msg_def arp_frame_def)
qed

text \<open>
  C5 as stated fails when the entry exists: the host learns the peer's address from an
  ARP request, 1000 ms pass, and an accepted ARP reply with the same sender IP address
  and another Ethernet address arrives. The cache keeps the first address and the age
  1000.
\<close>

theorem recv_frame_refresh_counterexample:
  "ip2ether (tick 1000 (snd (recv_frame tagged_codec (arp_frame ETHERNET_BROADCAST OPCODE_REQUEST peer_eth) host)))
      peer_ip = Some (peer_eth, 1000)
   \<and> dst (header (arp_frame host_eth OPCODE_REPLY other_eth)) = ethernet_address host
   \<and> ether_type (header (arp_frame host_eth OPCODE_REPLY other_eth)) = TYPE_ARP
   \<and> map_option sender_ip_address (parse_arp tagged_codec (payload (arp_frame host_eth OPCODE_REPLY other_eth)))
       = Some peer_ip
   \<and> map_option sender_ethernet_address
         (parse_arp tagged_codec (payload (arp_frame host_eth OPCODE_REPLY other_eth))) = Some other_eth
   \<and> ip2ether (snd (recv_frame tagged_codec (arp_frame host_eth OPCODE_REPLY other_eth)
        (tick 1000 (snd (recv_frame tagged_codec (arp_frame ETHERNET_BROADCAST OPCODE_REQUEST peer_eth) host)))))
      peer_ip = Some (peer_eth, 1000)
   \<and> (peer_eth, 1000 :: u64) \<noteq> (other_eth, 0)"
  by (simp add: example_eval recv_frame_def recv_arp_ip2ether map_insert_def tick_def IP_MAP_TTL_def
      word_le_nat_alt)


lemma two_datagrams_one_request_example:
  "ip2ether host peer_ip = None \<and> arp_timer host peer_ip = None \<and> waited_dgrams host peer_ip = None
   \<and> sum_list (map unat [1000, 3999 :: u64]) < 5000
   \<and> dst (header (arp_frame host_eth OPCODE_REPLY peer_eth)) = ethernet_address host
   \<and> map (\<lambda>frame. (dst (header frame), ether_type (header frame), payload frame))
        (out_frames (send_datagram tagged_codec ''two'' peer_ip
           (ticks [1000, 3999] (send_datagram tagged_codec ''one'' peer_ip host))))
      = [(ETHERNET_BROADCAST, TYPE_ARP,
          Inr \<lparr> opcode = OPCODE_REQUEST, sender_ethernet_address = host_eth, sender_ip_address = host_ip,
                target_ethernet_address = [0, 0, 0, 0, 0, 0], target_ip_address = peer_ip \<rparr>)]
   \<and> map (\<lambda>frame. (dst (header frame), ether_type (header frame), payload frame))
        (out_frames (snd (recv_frame tagged_codec (arp_frame host_eth OPCODE_REPLY peer_eth)
           (ticks [7000] (send_datagram tagged_codec ''two'' peer_ip
              (ticks [1000, 3999] (send_datagram tagged_codec ''one'' peer_ip host)))))))
      = [(ETHERNET_BROADCAST, TYPE_ARP,
          Inr \<lparr> opcode = OPCODE_REQUEST, sender_ethernet_address = host_eth, sender_ip_address = host_ip,
                target_ethernet_address = [0, 0, 0, 0, 0, 0], target_ip_address = peer_ip \<rparr>),
         (peer_eth, TYPE_IPv4, Inl ''one''), (peer_eth, TYPE_IPv4, Inl ''two'')]"
proof -
  define msg where "msg = \<lparr> opcode = OPCODE_REPLY, sender_ethernet_address = peer_eth,
     sender_ip_address = peer_ip, target_ethernet_address = host_eth, target_ip_address = host_ip \<rparr>"
  have f: "ip2ether host peer_ip = None" "arp_timer host peer_ip = None" "waited_dgrams host peer_ip = None"
    by (simp_all add: host_def NetworkInterface_init_def)
  have t: "sum_list (map unat [1000, 3999 :: u64]) < 5000"
    by simp
  have h1: "dst (header (arp_frame host_eth OPCODE_REPLY peer_eth)) = ethernet_address host
            \<or> dst (header (arp_frame host_eth OPCODE_REPLY peer_eth)) = ETHERNET_BROADCAST"
    by (simp add: arp_frame_def host_def NetworkInterface_init_def)
  have h2: "ether_type (header (arp_frame host_eth OPCODE_REPLY peer_eth)) = TYPE_ARP"
    by (simp add: arp_frame_def)
  have h3: "parse_arp tagged_codec (payload (arp_frame host_eth OPCODE_REPLY peer_eth)) = Some msg"
    by (simp add: arp_frame_def tagged_codec_def msg_def)
  have h4: "opcode msg = OPCODE_REPLY" and h5: "sender_ip_address msg = peer_ip"
    by (simp_all add: msg_def)
  have o: "out_frames host = []" "ethernet_address host = host_eth" "ip_address host = host_ip"
    by (simp_all add: host_def NetworkInterface_init_def)
  from two_datagrams_one_request [OF f t h1 h2 h3 h4 h5, where ?d1.0 = "''one''" and ?d2.0 = "''two''" and ?ts2.0 = "[7000]"] f t h1
  show ?thesis
    by (simp add: Let_def o msg_def ARPMessage_default_def)
       (simp add: tagged_codec_def arp_frame_def host_def NetworkInterface_init_def)
qed

theorem cache_entry_lifetime_witness:
  "ip2ether (snd (recv_frame tagged_codec (arp_frame ETHERNET_BROADCAST OPCODE_REQUEST peer_eth) host)) peer_ip
     = Some (peer_eth, 0)
   \<and> sum_list (map unat [10000, 19999 :: u64]) < 30000
   \<and> ip2ether (ticks [10000, 19999]
        (snd (recv_frame tagged_codec (arp_frame ETHERNET_BROADCAST OPCODE_REQUEST peer_eth) host))) peer_ip
     = Some (peer_eth, 29999)
   \<and> 30000 \<le> sum_list (map unat [10000, 19999, 1 :: u64])
   \<and> ip2ether (ticks [10000, 19999, 1]
        (snd (recv_frame tagged_codec (arp_frame ETHERNET_BROADCAST OPCODE_REQUEST peer_eth) host))) peer_ip
     = None"
proof -
  define learned where
    "learned = snd (recv_frame tagged_codec (arp_frame ETHERNET_BROADCAST OPCODE_REQUEST peer_eth) host)"
  have e: "ip2ether learned peer_ip = Some (peer_eth, 0)"
    unfolding learned_def
    by (simp add: example_eval recv_frame_def recv_arp_ip2ether map_insert_def)
  have a: "sum_list (map unat [10000, 19999 :: u64]) < 30000"
    by simp
  have b: "30000 \<le> sum_list (map unat [10000, 19999, 1 :: u64])
           \<and> sum_list (map unat [10000, 19999, 1 :: u64]) < 2 ^ 64"
    by simp
  from cache_entry_lifetime [OF e, of "[10000, 19999]"]
       cache_entry_lifetime [OF e, of "[10000, 19999, 1]"] e a b
  show ?thesis
    unfolding learned_def by simp
qed

text \<open>
  C6, evaluated: the host sends the datagram \<^verbatim>\<open>zero\<close> to the peer, whose address it
  does not know, and 5000 ms pass without a reply. The peer is then unresolved: no cache
  entry and no request timer, and \<^verbatim>\<open>zero\<close> is still waiting. Two more datagrams,
  \<^verbatim>\<open>one\<close> and \<^verbatim>\<open>two\<close>, are sent with no tick between them. The first enqueues an ARP
  request, but \<^verbatim>\<open>waited_dgrams_.insert\<close> finds the key and keeps the old list, so
  \<^verbatim>\<open>one\<close> is not queued. The reply then enqueues two IPv4 frames, carrying \<^verbatim>\<open>zero\<close>
  and \<^verbatim>\<open>two\<close>; \<^verbatim>\<open>one\<close> is never sent.
\<close>

theorem send_after_unanswered_request:
  "ip2ether (ticks [5000] (send_datagram tagged_codec ''zero'' peer_ip host)) peer_ip = None
   \<and> arp_timer (ticks [5000] (send_datagram tagged_codec ''zero'' peer_ip host)) peer_ip = None
   \<and> waited_dgrams (ticks [5000] (send_datagram tagged_codec ''zero'' peer_ip host)) peer_ip = Some [''zero'']
   \<and> map (\<lambda>frame. (ether_type (header frame), payload frame))
        (out_frames (send_datagram tagged_codec ''two'' peer_ip (send_datagram tagged_codec ''one'' peer_ip
            (ticks [5000] (send_datagram tagged_codec ''zero'' peer_ip host)))))
      = [(TYPE_ARP, Inr \<lparr> opcode = OPCODE_REQUEST, sender_ethernet_address = host_eth, sender_ip_address = host_ip,
                target_ethernet_address = [0, 0, 0, 0, 0, 0], target_ip_address = peer_ip \<rparr>),
         (TYPE_ARP, Inr \<lparr> opcode = OPCODE_REQUEST, sender_ethernet_address = host_eth, sender_ip_address = host_ip,
                target_ethernet_address = [0, 0, 0, 0, 0, 0], target_ip_address = peer_ip \<rparr>)]
   \<and> map (\<lambda>frame. (dst (header frame), ether_type (header frame), payload frame))
        (drop 2 (out_frames (snd (recv_frame tagged_codec (arp_frame host_eth OPCODE_REPLY peer_eth)
          (send_datagram tagged_codec ''two'' peer_ip (send_datagram tagged_codec ''one'' peer_ip
            (ticks [5000] (send_datagram tagged_codec ''zero'' peer_ip host))))))))
      = [(peer_eth, TYPE_IPv4, Inl ''zero''), (peer_eth, TYPE_IPv4, Inl ''two'')]"
  by (simp add: example_eval send_datagram_def recv_frame_def recv_arp_def map_insert_def map_index_def
      tick_def ARP_REQUEST_TTL_def IP_MAP_TTL_def ARPMessage_default_def Let_def word_le_nat_alt)

text \<open>
  C7 as stated fails for a mapping that is taught again: the host learns the peer's
  address, 20000 ms pass, and an accepted ARP reply of the peer teaches the same mapping
  at that time. The entry keeps the age 20000, and a tick of 10000 ms removes it, long
  before 30000 ms have passed since the reply.
\<close>

theorem cache_entry_taught_again_counterexample:
  "ip2ether (tick 20000 (snd (recv_frame tagged_codec (arp_frame ETHERNET_BROADCAST OPCODE_REQUEST peer_eth) host)))
      peer_ip = Some (peer_eth, 20000)
   \<and> map_option (\<lambda>msg. (sender_ip_address msg, sender_ethernet_address msg))
        (parse_arp tagged_codec (payload (arp_frame host_eth OPCODE_REPLY peer_eth))) = Some (peer_ip, peer_eth)
   \<and> ip2ether (snd (recv_frame tagged_codec (arp_frame host_eth OPCODE_REPLY peer_eth)
        (tick 20000 (snd (recv_frame tagged_codec (arp_frame ETHERNET_BROADCAST OPCODE_REQUEST peer_eth) host)))))
      peer_ip = Some (peer_eth, 20000)
   \<and> sum_list (map unat [10000 :: u64]) < 30000
   \<and> ip2ether (ticks [10000] (snd (recv_frame tagged_codec (arp_frame host_eth OPCODE_REPLY peer_eth)
        (tick 20000 (snd (recv_frame tagged_codec (arp_frame ETHERNET_BROADCAST OPCODE_REQUEST peer_eth) host))))))
      peer_ip = None"
  by (simp add: example_eval recv_frame_def recv_arp_ip2ether map_insert_def tick_def IP_MAP_TTL_def
      word_le_nat_alt)

text \<open>
  The ages are \<^verbatim>\<open>size_t\<close> sums: a tick that makes the age wrap leaves the entry in the
  cache, here with age 500 after ticks of 1000 and \<^verbatim>\<open>2^64 - 500\<close> ms.
\<close>

lemma cache_entry_age_wraps:
  "ip2ether (snd (recv_frame tagged_codec (arp_frame ETHERNET_BROADCAST OPCODE_REQUEST peer_eth) host)) peer_ip
     = Some (peer_eth, 0)
   \<and> 30000 \<le> sum_list (map unat [1000, 2 ^ 64 - 500 :: u64])
   \<and> ip2ether (ticks [1000, 2 ^ 64 - 500]
        (snd (recv_frame tagged_codec (arp_frame ETHERNET_BROADCAST OPCODE_REQUEST peer_eth) host))) peer_ip
     = Some (peer_eth, 500)"
  by (simp add: example_eval recv_frame_def recv_arp_ip2ether map_insert_def tick_def IP_MAP_TTL_def
      word_le_nat_alt)

end
